theory Spec2Isabelle
  imports Main "HOL-Library.Word" "HOL-Library.Signed_Division"
begin

section \<open>Data model shared by both backends\<close>

text \<open>
  The package \<^verbatim>\<open>queue\<close> has two backends behind the interfaces \<^verbatim>\<open>Broker\<close>,
  \<^verbatim>\<open>Queue\<close> and \<^verbatim>\<open>JobIter\<close>: the AMQP one (\<^verbatim>\<open>src/queue/amqp.go\<close>) and the
  in-memory one (\<^verbatim>\<open>memoryBroker\<close>, \<^verbatim>\<open>memoryQueue\<close>, \<^verbatim>\<open>memoryJobIter\<close>).

  Go's \<^verbatim>\<open>error\<close> values: the two package sentinels the code returns, the result of
  \<^verbatim>\<open>fmt.Errorf(format, err)\<close> (a fresh error built from a format string and the
  wrapped error), and any other error (one coming out of the transport client
  library or out of a user callback), identified by its message.
\<close>

datatype error =
    ErrEmptyJob
  | ErrAlreadyClosed
  | Errorf string error
  | OtherError string

type_synonym byte = "8 word"
type_synonym uint64 = "64 word"
type_synonym int64 = "64 word"

text \<open>
  The \<^verbatim>\<open>Acknowledger\<close> interface has two implementations in the code:
  \<^verbatim>\<open>AMQPAcknowledger{ack, id}\<close> (the transport's acknowledger handle and the delivery
  tag) and the in-memory \<^verbatim>\<open>mockAcknowledger{}\<close>.
\<close>

datatype Acknowledger =
    AMQPAcknowledger nat uint64
  | mockAcknowledger

text \<open>
  Modelled from the spec: the struct \<^verbatim>\<open>Job\<close> and the type \<^verbatim>\<open>Priority\<close> are declared
  in a file that is not among the sources. The fields are those the code reads and
  writes (\<^verbatim>\<open>ID\<close>, \<^verbatim>\<open>Priority\<close>, \<^verbatim>\<open>Timestamp\<close>, \<^verbatim>\<open>contentType\<close>, \<^verbatim>\<open>raw\<close>,
  \<^verbatim>\<open>acknowledger\<close>, \<^verbatim>\<open>tag\<close>), which are also the fields the spec lists.
  \<^verbatim>\<open>Priority\<close> is the spec's "small integer", taken as an unsigned byte, the type
  the code converts it to and from; \<^verbatim>\<open>Timestamp\<close> (a \<^verbatim>\<open>time.Time\<close>) is an opaque
  instant, here an integer; a nil \<^verbatim>\<open>acknowledger\<close> is \<open>None\<close>.
\<close>

record Job =
  ID :: string
  Priority :: byte
  Timestamp :: int
  contentType :: string
  raw :: "byte list"
  acknowledger :: "Acknowledger option"
  tag :: uint64

text \<open>
  Jobs are passed around as \<^verbatim>\<open>*Job\<close>. A pointer is nil (\<open>None\<close>) or the address of a
  job object; the heap maps every address to the object stored there, so that a write
  through one pointer is seen through every alias.
\<close>

type_synonym addr = nat
type_synonym jobptr = "addr option"
type_synonym heap = "addr \<Rightarrow> Job"

text \<open>
  What a call does: it returns a value, or it panics (a nil pointer dereference), or it
  blocks on a channel receive that nothing in the current state can complete.
\<close>

datatype 'a outcome = Returned 'a | Panicked | Blocked


section \<open>The in-memory backend\<close>

record memoryQueue =
  jobs :: "jobptr list"
  idx :: nat
  publishImmediately :: bool

text \<open>\<^verbatim>\<open>memoryBroker\<close> is an empty struct.\<close>

datatype memoryBroker = MemoryBroker

definition NewMemoryBroker :: memoryBroker where
  "NewMemoryBroker = MemoryBroker"

text \<open>\<^verbatim>\<open>Queue(name)\<close> returns a new empty queue, whatever the name, and a nil error.\<close>

definition memoryBroker_Queue :: "memoryBroker \<Rightarrow> string \<Rightarrow> memoryQueue \<times> error option" where
  "memoryBroker_Queue b name =
     (\<lparr>jobs = [], idx = 0, publishImmediately = False\<rparr>, None)"


text \<open>\<^verbatim>\<open>Publish\<close>: append the pointer under the lock and return nil.\<close>

definition memoryQueue_Publish :: "memoryQueue \<Rightarrow> jobptr \<Rightarrow> error option \<times> memoryQueue" where
  "memoryQueue_Publish q job = (None, q\<lparr>jobs := jobs q @ [job]\<rparr>)"

text \<open>
  \<^verbatim>\<open>PublishDelayed\<close>: with \<^verbatim>\<open>publishImmediately\<close> it is \<^verbatim>\<open>Publish\<close>; otherwise it
  starts a goroutine that waits for the delay and then calls \<^verbatim>\<open>Publish\<close>, and returns
  nil at once. The third component is the goroutine started, if any: the delay it
  waits for and the job it will publish. \<open>timer_fires\<close> is the body of that goroutine
  once the delay is over.
\<close>

definition memoryQueue_PublishDelayed ::
  "memoryQueue \<Rightarrow> jobptr \<Rightarrow> int64 \<Rightarrow> error option \<times> memoryQueue \<times> (int64 \<times> jobptr) option" where
  "memoryQueue_PublishDelayed q job delay =
     (if publishImmediately q
      then (fst (memoryQueue_Publish q job), snd (memoryQueue_Publish q job), None)
      else (None, q, Some (delay, job)))"

definition timer_fires :: "memoryQueue \<Rightarrow> int64 \<times> jobptr \<Rightarrow> memoryQueue" where
  "timer_fires q t = snd (memoryQueue_Publish q (snd t))"


definition memoryJobIter_Next ::
  "memoryQueue \<Rightarrow> heap \<Rightarrow> (jobptr \<times> error option) outcome \<times> memoryQueue \<times> heap" where
  "memoryJobIter_Next i h =
     (if length (jobs i) \<le> idx i then (Returned (None, None), i, h)
      else (case jobs i ! idx i of
              None \<Rightarrow> (Panicked, i\<lparr>idx := idx i + 1\<rparr>, h)
            | Some a \<Rightarrow>
                (Returned (Some a, None),
                 i\<lparr>idx := idx i + 1\<rparr>,
                 h(a := (h a)\<lparr>tag := 1, acknowledger := Some mockAcknowledger\<rparr>))))"

text \<open>\<^verbatim>\<open>Close\<close> on the iterator returns nil.\<close>

definition memoryJobIter_Close :: "memoryQueue \<Rightarrow> error option" where
  "memoryJobIter_Close i = None"

text \<open>
  A caller that publishes a sequence of jobs one after the other, and a consumer that
  calls \<^verbatim>\<open>Next\<close> a given number of times and collects what each call gives back (it
  stops at the first call that does not return).
\<close>

fun publish_all :: "memoryQueue \<Rightarrow> jobptr list \<Rightarrow> memoryQueue" where
  "publish_all q [] = q"
| "publish_all q (p # ps) = publish_all (snd (memoryQueue_Publish q p)) ps"

fun next_n ::
  "nat \<Rightarrow> memoryQueue \<Rightarrow> heap \<Rightarrow> (jobptr \<times> error option) outcome list \<times> memoryQueue \<times> heap" where
  "next_n 0 i h = ([], i, h)"
| "next_n (Suc n) i h =
     (case memoryJobIter_Next i h of
        (Returned r, i', h') \<Rightarrow>
          (case next_n n i' h' of (rs, i'', h'') \<Rightarrow> (Returned r # rs, i'', h''))
      | (out, i', h') \<Rightarrow> ([out], i', h'))"


text \<open>
  \<^verbatim>\<open>Transaction\<close>: the callback runs against a new scratch queue with
  \<^verbatim>\<open>publishImmediately\<close> set. When the callback returns a non-nil error the method
  returns nil and leaves the queue alone; otherwise it appends the scratch queue's jobs
  to the queue and returns nil. A \<^verbatim>\<open>TxCallback\<close> is a Go function from a
  \<^verbatim>\<open>Queue\<close> to an error: here, what running it does to the scratch queue and the
  heap, and what comes out of it. A callback that panics takes the method with it.
\<close>

type_synonym memTxCallback =
  "memoryQueue \<Rightarrow> heap \<Rightarrow> (error option) outcome \<times> memoryQueue \<times> heap"

definition memoryQueue_Transaction ::
  "memoryQueue \<Rightarrow> memTxCallback \<Rightarrow> heap \<Rightarrow> (error option) outcome \<times> memoryQueue \<times> heap" where
  "memoryQueue_Transaction q txcb h =
     (let txQ = \<lparr>jobs = [], idx = 0, publishImmediately = True\<rparr> in
      case txcb txQ h of
        (Returned (Some err), txQ', h') \<Rightarrow> (Returned None, q, h')
      | (Returned None, txQ', h') \<Rightarrow> (Returned None, q\<lparr>jobs := jobs q @ jobs txQ'\<rparr>, h')
      | (out, txQ', h') \<Rightarrow> (out, q, h'))"

text \<open>
  Callbacks written as a script: a sequence of calls on the queue they are given,
  followed by the error they return. \<open>run_ops\<close> performs the calls in order (it also
  collects the goroutines that \<^verbatim>\<open>PublishDelayed\<close> starts) and stops at a call that
  panics; \<open>script\<close> is the callback that runs the calls and then returns \<open>r\<close>;
  \<open>published\<close> lists the jobs the script hands to \<^verbatim>\<open>Publish\<close> or
  \<^verbatim>\<open>PublishDelayed\<close>, in order.
\<close>

datatype qop = OpPublish jobptr | OpPublishDelayed jobptr int64 | OpNext

fun run_ops ::
  "qop list \<Rightarrow> memoryQueue \<Rightarrow> heap \<Rightarrow>
     unit outcome \<times> memoryQueue \<times> heap \<times> (int64 \<times> jobptr) list" where
  "run_ops [] q h = (Returned (), q, h, [])"
| "run_ops (OpPublish p # ops) q h = run_ops ops (snd (memoryQueue_Publish q p)) h"
| "run_ops (OpPublishDelayed p d # ops) q h =
     (case memoryQueue_PublishDelayed q p d of
        (err, q', None) \<Rightarrow> run_ops ops q' h
      | (err, q', Some t) \<Rightarrow>
          (case run_ops ops q' h of (out, q'', h'', ts) \<Rightarrow> (out, q'', h'', t # ts)))"
| "run_ops (OpNext # ops) q h =
     (case memoryJobIter_Next q h of
        (Returned r, q', h') \<Rightarrow> run_ops ops q' h'
      | (out, q', h') \<Rightarrow> (Panicked, q', h', []))"

definition script :: "qop list \<Rightarrow> error option \<Rightarrow> memTxCallback" where
  "script ops r q h =
     (case run_ops ops q h of
        (Returned u, q', h', ts) \<Rightarrow> (Returned r, q', h')
      | (out, q', h', ts) \<Rightarrow> (Panicked, q', h'))"

fun published :: "qop list \<Rightarrow> jobptr list" where
  "published [] = []"
| "published (OpPublish p # ops) = p # published ops"
| "published (OpPublishDelayed p d # ops) = p # published ops"
| "published (OpNext # ops) = published ops"


section \<open>The AMQP backend\<close>

subsection \<open>The transport client library, as the code uses it\<close>

text \<open>
  The AMQP client library is not part of the repository. A connection and a channel are
  handles; every call the code makes on them is recorded, with its arguments, as a
  \<open>call\<close>, and what the library answers is a parameter of the model (\<open>transport\<close>):
  nothing is assumed about the answers.
\<close>

type_synonym conn_id = nat
type_synonym chan_id = nat

datatype table_value = TString string | TInt64 int64

text \<open>An \<^verbatim>\<open>amqp.Table\<close> literal: its keys are distinct, their order is immaterial.\<close>

type_synonym Table = "(string \<times> table_value) list"

record Publishing =
  pub_DeliveryMode :: byte
  pub_MessageId :: string
  pub_Priority :: byte
  pub_Timestamp :: int
  pub_ContentType :: string
  pub_Body :: "byte list"

text \<open>The fields of an \<^verbatim>\<open>amqp.Delivery\<close> that the code reads.\<close>

record Delivery =
  dlv_Acknowledger :: nat
  dlv_DeliveryTag :: uint64
  dlv_MessageId :: string
  dlv_Priority :: byte
  dlv_Timestamp :: int
  dlv_ContentType :: string
  dlv_Body :: "byte list"

record amqp_Queue =
  Name :: string
  Messages :: int
  Consumers :: int

text \<open>
  A Go channel seen from its receiving end: the values still to be received, in order,
  and whether the channel has been closed. A receive takes the first value; on an
  empty closed channel it yields \<^verbatim>\<open>ok = false\<close> at once; on an empty open channel it
  blocks.
\<close>

record 'a gochan =
  buf :: "'a list"
  closed :: bool

definition recv :: "'a gochan \<Rightarrow> ('a option) outcome \<times> 'a gochan" where
  "recv c =
     (case buf c of
        d # ds \<Rightarrow> (Returned (Some d), c\<lparr>buf := ds\<rparr>)
      | [] \<Rightarrow> if closed c then (Returned None, c) else (Blocked, c))"

datatype call =
    Dial string
  | Conn_Channel conn_id
  | Conn_Close conn_id
  | Close_stop
  | Ch_QueueDeclare chan_id string bool bool bool bool "Table option"
  | Ch_Publish chan_id string string bool bool Publishing
  | Ch_Tx chan_id
  | Ch_TxRollback chan_id
  | Ch_TxCommit chan_id
  | Ch_Close chan_id
  | Ch_Qos chan_id nat nat bool
  | Ch_Consume chan_id string string bool bool bool bool "Table option"
  | Ch_Cancel chan_id string bool

text \<open>
  The answers of the library, one per call the code makes, as functions of the handle
  the call is made on (and of the queue name for a declaration).
\<close>

record transport =
  t_Channel :: "conn_id \<Rightarrow> error + chan_id"
  t_ConnClose :: "conn_id \<Rightarrow> error option"
  t_QueueDeclare :: "chan_id \<Rightarrow> string \<Rightarrow> error + amqp_Queue"
  t_Publish :: "chan_id \<Rightarrow> error option"
  t_Tx :: "chan_id \<Rightarrow> error option"
  t_TxRollback :: "chan_id \<Rightarrow> error option"
  t_TxCommit :: "chan_id \<Rightarrow> error option"
  t_ChClose :: "chan_id \<Rightarrow> error option"
  t_Qos :: "chan_id \<Rightarrow> error option"
  t_Consume :: "chan_id \<Rightarrow> error + Delivery gochan"
  t_Cancel :: "chan_id \<Rightarrow> error option"

text \<open>\<^verbatim>\<open>amqp.Persistent\<close> is the delivery mode 2.\<close>

definition Persistent :: byte where
  "Persistent = 2"

text \<open>\<^verbatim>\<open>time.Duration\<close> is an \<^verbatim>\<open>int64\<close> count of nanoseconds.\<close>

definition Millisecond :: int64 where
  "Millisecond = 1000000"



subsection \<open>Broker and queue\<close>

text \<open>
  \<^verbatim>\<open>AMQPBroker\<close>: the connection and channel handles, and the \<^verbatim>\<open>stop\<close> channel
  (\<open>None\<close> when the field is nil, otherwise whether it has been closed). The mutex and
  the close-notification channel belong to the supervisor goroutine. A queue refers to
  its broker through the \<^verbatim>\<open>connection\<close> interface, whose accessors \<^verbatim>\<open>connection()\<close>
  and \<^verbatim>\<open>channel()\<close> read the two handles under the lock.
\<close>

record AMQPBroker =
  conn :: conn_id
  ch :: chan_id
  stop :: "bool option"

record AMQPQueue =
  q_conn :: AMQPBroker
  queue :: amqp_Queue

definition connection :: "AMQPBroker \<Rightarrow> conn_id" where
  "connection b = conn b"

definition channel :: "AMQPBroker \<Rightarrow> chan_id" where
  "channel b = ch b"



text \<open>
  \<^verbatim>\<open>Publish\<close>: a nil job or an empty payload is refused with \<^verbatim>\<open>ErrEmptyJob\<close> before
  anything else; otherwise the job is published to the default exchange with the
  queue's name as routing key, and the library's answer is returned. The job argument
  is nil (\<open>None\<close>) or the job the pointer refers to. \<^verbatim>\<open>uint8(j.Priority)\<close> converts
  a byte to a byte.
\<close>

definition AMQPQueue_Publish ::
  "transport \<Rightarrow> AMQPQueue \<Rightarrow> Job option \<Rightarrow> error option \<times> call list" where
  "AMQPQueue_Publish T q jp =
     (case jp of
        None \<Rightarrow> (Some ErrEmptyJob, [])
      | Some j \<Rightarrow>
          if length (raw j) = 0 then (Some ErrEmptyJob, [])
          else (t_Publish T (channel (q_conn q)),
                [Ch_Publish (channel (q_conn q)) [] (Name (queue q)) False False
                   \<lparr>pub_DeliveryMode = Persistent,
                    pub_MessageId = ID j,
                    pub_Priority = ucast (Priority j),
                    pub_Timestamp = Timestamp j,
                    pub_ContentType = contentType j,
                    pub_Body = raw j\<rparr>]))"

text \<open>
  \<^verbatim>\<open>PublishDelayed\<close>: after the same check, \<^verbatim>\<open>ttl := delay / time.Millisecond\<close>
  (Go's integer division, which truncates towards zero); a queue named after the job's
  ID is declared, durable and deleted when unused, with the four arguments below
  (\<^verbatim>\<open>int64(ttl) * 2\<close> is a 64-bit multiplication); a failed declaration is returned;
  otherwise the job is published with the name of the declared queue, as the library
  returned it, as routing key. The empty string is \<open>[]\<close>.
\<close>

definition AMQPQueue_PublishDelayed ::
  "transport \<Rightarrow> AMQPQueue \<Rightarrow> Job option \<Rightarrow> int64 \<Rightarrow> error option \<times> call list" where
  "AMQPQueue_PublishDelayed T q jp delay =
     (case jp of
        None \<Rightarrow> (Some ErrEmptyJob, [])
      | Some j \<Rightarrow>
          if length (raw j) = 0 then (Some ErrEmptyJob, [])
          else
            (let ttl = (word_of_int (sint delay sdiv sint Millisecond) :: int64);
                 declare = Ch_QueueDeclare (channel (q_conn q)) (ID j) True True False False
                   (Some [(''x-dead-letter-exchange'', TString []),
                          (''x-dead-letter-routing-key'', TString (Name (queue q))),
                          (''x-message-ttl'', TInt64 ttl),
                          (''x-expires'', TInt64 (ttl * 2))])
             in case t_QueueDeclare T (channel (q_conn q)) (ID j) of
                  Inl err \<Rightarrow> (Some err, [declare])
                | Inr delayedQueue \<Rightarrow>
                    (t_Publish T (channel (q_conn q)),
                     [declare,
                      Ch_Publish (channel (q_conn q)) [] (Name delayedQueue) False False
                        \<lparr>pub_DeliveryMode = Persistent,
                         pub_MessageId = ID j,
                         pub_Priority = ucast (Priority j),
                         pub_Timestamp = Timestamp j,
                         pub_ContentType = contentType j,
                         pub_Body = raw j\<rparr>])))"

text \<open>
  \<^verbatim>\<open>Transaction\<close>: open a channel on the connection (a failure is returned wrapped by
  \<^verbatim>\<open>fmt.Errorf\<close>); the channel is closed when the method returns (\<^verbatim>\<open>defer\<close>); put
  it in transaction mode (a failure is returned); run the callback on a queue bound to
  a new broker value holding the connection and the new channel; when the callback
  returns an error, roll back, and return the rollback's error if there is one and the
  callback's error otherwise; when it returns nil, commit and return the commit's
  error, if any. An AMQP \<^verbatim>\<open>TxCallback\<close> is what running it on the scoped queue
  returns, with the calls it makes.
\<close>

type_synonym amqpTxCallback = "AMQPQueue \<Rightarrow> error option \<times> call list"

definition AMQPQueue_Transaction ::
  "transport \<Rightarrow> AMQPQueue \<Rightarrow> amqpTxCallback \<Rightarrow> error option \<times> call list" where
  "AMQPQueue_Transaction T q txcb =
     (case t_Channel T (connection (q_conn q)) of
        Inl err \<Rightarrow>
          (Some (Errorf ''failed to open a channel: %s'' err),
           [Conn_Channel (connection (q_conn q))])
      | Inr c \<Rightarrow>
          (case t_Tx T c of
             Some err \<Rightarrow>
               (Some err, [Conn_Channel (connection (q_conn q)), Ch_Tx c, Ch_Close c])
           | None \<Rightarrow>
               (let txQueue = \<lparr>q_conn = \<lparr>conn = connection (q_conn q), ch = c, stop = None\<rparr>,
                               queue = queue q\<rparr>;
                    before = [Conn_Channel (connection (q_conn q)), Ch_Tx c] @ snd (txcb txQueue)
                in case fst (txcb txQueue) of
                     Some err \<Rightarrow>
                       (case t_TxRollback T c of
                          Some err' \<Rightarrow> (Some err', before @ [Ch_TxRollback c, Ch_Close c])
                        | None \<Rightarrow> (Some err, before @ [Ch_TxRollback c, Ch_Close c]))
                   | None \<Rightarrow>
                       (case t_TxCommit T c of
                          Some err' \<Rightarrow> (Some err', before @ [Ch_TxCommit c, Ch_Close c])
                        | None \<Rightarrow> (None, before @ [Ch_TxCommit c, Ch_Close c])))))"

subsection \<open>Consuming\<close>



record AMQPJobIter =
  it_id :: string
  it_ch :: chan_id
  it_c :: "Delivery gochan"


text \<open>
  \<^verbatim>\<open>fromDelivery\<close> starts from \<^verbatim>\<open>NewJob()\<close>, which is not among the sources and is a
  parameter here (\<open>j0\<close>), and overwrites its fields from the delivery.
  \<^verbatim>\<open>Priority(d.Priority)\<close> converts a byte to a byte.
\<close>

definition fromDelivery :: "Job \<Rightarrow> Delivery \<Rightarrow> Job" where
  "fromDelivery j0 d =
     j0\<lparr>ID := dlv_MessageId d,
        Priority := ucast (dlv_Priority d),
        Timestamp := dlv_Timestamp d,
        contentType := dlv_ContentType d,
        acknowledger := Some (AMQPAcknowledger (dlv_Acknowledger d) (dlv_DeliveryTag d)),
        tag := dlv_DeliveryTag d,
        raw := dlv_Body d\<rparr>"

text \<open>
  \<^verbatim>\<open>Next\<close>: receive from the delivery channel; when the channel is closed and empty,
  return \<^verbatim>\<open>nil, ErrAlreadyClosed\<close>; otherwise return the job built from the
  delivery. The job returned is nil (\<open>None\<close>) or the new job.
\<close>

definition AMQPJobIter_Next ::
  "Job \<Rightarrow> AMQPJobIter \<Rightarrow> (Job option \<times> error option) outcome \<times> AMQPJobIter" where
  "AMQPJobIter_Next j0 i =
     (case recv (it_c i) of
        (Returned None, c') \<Rightarrow> (Returned (None, Some ErrAlreadyClosed), i\<lparr>it_c := c'\<rparr>)
      | (Returned (Some d), c') \<Rightarrow> (Returned (Some (fromDelivery j0 d), None), i\<lparr>it_c := c'\<rparr>)
      | (Panicked, c') \<Rightarrow> (Panicked, i\<lparr>it_c := c'\<rparr>)
      | (Blocked, c') \<Rightarrow> (Blocked, i\<lparr>it_c := c'\<rparr>))"

text \<open>\<^verbatim>\<open>Close\<close>: cancel the consumer, then close the iterator's channel.\<close>

definition AMQPJobIter_Close :: "transport \<Rightarrow> AMQPJobIter \<Rightarrow> error option \<times> call list" where
  "AMQPJobIter_Close T i =
     (case t_Cancel T (it_ch i) of
        Some err \<Rightarrow> (Some err, [Ch_Cancel (it_ch i) (it_id i) False])
      | None \<Rightarrow> (t_ChClose T (it_ch i), [Ch_Cancel (it_ch i) (it_id i) False, Ch_Close (it_ch i)]))"


subsection \<open>Reconnecting\<close>

text \<open>
  \<^verbatim>\<open>connect\<close> is two loops without a bound. The first dials until a dial succeeds; the
  second asks the connection obtained for a channel until that succeeds. A failed
  attempt is logged and followed by a wait of one second. What the \<open>n\<close>-th attempt
  answers is a parameter (\<open>dial\<close>, and \<open>chanopen\<close> for a given connection). A loop
  that never ends has the value \<open>None\<close>; a loop that ends returns what it obtained and
  the number of failed attempts, which is the number of seconds it waited.
\<close>

partial_function (option) dial_loop ::
  "(nat \<Rightarrow> error + conn_id) \<Rightarrow> nat \<Rightarrow> (conn_id \<times> nat) option" where
  "dial_loop dial n =
     (case dial n of
        Inl err \<Rightarrow> dial_loop dial (Suc n)
      | Inr c \<Rightarrow> Some (c, n))"

partial_function (option) channel_loop ::
  "(nat \<Rightarrow> error + chan_id) \<Rightarrow> nat \<Rightarrow> (chan_id \<times> nat) option" where
  "channel_loop chanopen n =
     (case chanopen n of
        Inl err \<Rightarrow> channel_loop chanopen (Suc n)
      | Inr c \<Rightarrow> Some (c, n))"

declare dial_loop.simps [code]
declare channel_loop.simps [code]

text \<open>
  The result of \<^verbatim>\<open>connect\<close>: the connection, the channel, and the seconds spent
  waiting.
\<close>

definition connect ::
  "(string \<Rightarrow> nat \<Rightarrow> error + conn_id) \<Rightarrow> (conn_id \<Rightarrow> nat \<Rightarrow> error + chan_id) \<Rightarrow> string \<Rightarrow>
     (conn_id \<times> chan_id \<times> nat) option" where
  "connect dial chanopen url =
     (case dial_loop (dial url) 0 of
        None \<Rightarrow> None
      | Some (c, n) \<Rightarrow>
          (case channel_loop (chanopen c) 0 of
             None \<Rightarrow> None
           | Some (k, m) \<Rightarrow> Some (c, k, n + m)))"

text \<open>
  One turn of the \<^verbatim>\<open>select\<close> loop of \<^verbatim>\<open>manageConnection\<close>: on a non-nil connection
  error the broker's handles are replaced by those \<^verbatim>\<open>connect\<close> returns; a nil error
  changes nothing; on \<^verbatim>\<open>stop\<close> the loop ends. The boolean tells whether the loop
  goes on; \<open>None\<close> means that \<^verbatim>\<open>connect\<close> never returned.
\<close>

datatype supervisor_event = ConnError "error option" | Stop

definition manageConnection_step ::
  "(string \<Rightarrow> nat \<Rightarrow> error + conn_id) \<Rightarrow> (conn_id \<Rightarrow> nat \<Rightarrow> error + chan_id) \<Rightarrow> string \<Rightarrow>
     AMQPBroker \<Rightarrow> supervisor_event \<Rightarrow> (AMQPBroker \<times> bool) option" where
  "manageConnection_step dial chanopen url b ev =
     (case ev of
        Stop \<Rightarrow> Some (b, False)
      | ConnError None \<Rightarrow> Some (b, True)
      | ConnError (Some err) \<Rightarrow>
          (case connect dial chanopen url of
             None \<Rightarrow> None
           | Some (c, k, w) \<Rightarrow> Some (b\<lparr>conn := c, ch := k\<rparr>, True)))"

section \<open>Concrete values\<close>

text \<open>
  A heap for the examples: job \<^verbatim>\<open>A\<close> (priority 5) at address 0, job \<^verbatim>\<open>B\<close>
  (priority 1) at address 1, and a job whose payload is empty at every other address.
\<close>

definition example_job :: "string \<Rightarrow> byte \<Rightarrow> byte list \<Rightarrow> Job" where
  "example_job i p body =
     \<lparr>ID = i, Priority = p, Timestamp = 1500000000, contentType = ''application/msgpack'',
      raw = body, acknowledger = None, tag = 0\<rparr>"

definition example_heap :: heap where
  "example_heap a =
     (if a = 0 then example_job ''A'' 5 [1]
      else if a = 1 then example_job ''B'' 1 [2]
      else example_job ''E'' 0 [])"

definition new_queue :: memoryQueue where
  "new_queue = fst (memoryBroker_Queue NewMemoryBroker ''q'')"


text \<open>
  A transport on which every call succeeds (new channels get the handle 7, a declared
  queue has the name asked for, the delivery channel is empty and open), a transport
  that answers every call with the same error, and a queue of a broker with connection
  1 and channel 2.
\<close>

definition example_transport :: transport where
  "example_transport =
     \<lparr>t_Channel = (\<lambda>k. Inr 7), t_ConnClose = (\<lambda>k. None),
      t_QueueDeclare = (\<lambda>c n. Inr \<lparr>Name = n, Messages = 0, Consumers = 0\<rparr>),
      t_Publish = (\<lambda>c. None), t_Tx = (\<lambda>c. None), t_TxRollback = (\<lambda>c. None),
      t_TxCommit = (\<lambda>c. None), t_ChClose = (\<lambda>c. None), t_Qos = (\<lambda>c. None),
      t_Consume = (\<lambda>c. Inr \<lparr>buf = [], closed = False\<rparr>), t_Cancel = (\<lambda>c. None)\<rparr>"


definition example_broker :: AMQPBroker where
  "example_broker = \<lparr>conn = 1, ch = 2, stop = Some False\<rparr>"

definition example_queue :: AMQPQueue where
  "example_queue =
     \<lparr>q_conn = example_broker, queue = \<lparr>Name = ''jobs'', Messages = 0, Consumers = 0\<rparr>\<rparr>"

definition example_delivery :: Delivery where
  "example_delivery =
     \<lparr>dlv_Acknowledger = 7, dlv_DeliveryTag = 42, dlv_MessageId = ''A'', dlv_Priority = 5,
      dlv_Timestamp = 1500000000, dlv_ContentType = ''application/msgpack'',
      dlv_Body = [1]\<rparr>"


section \<open>The in-memory backend: what it does\<close>

lemma publish_all_jobs: "jobs (publish_all q ps) = jobs q @ ps"
  by (induction ps arbitrary: q) (simp_all add: memoryQueue_Publish_def)

lemma publish_all_idx: "idx (publish_all q ps) = idx q"
  by (induction ps arbitrary: q) (simp_all add: memoryQueue_Publish_def)

lemma memoryJobIter_Next_keeps:
  "memoryJobIter_Next q h = (out, q', h') \<Longrightarrow>
   jobs q' = jobs q \<and> publishImmediately q' = publishImmediately q"
  by (auto simp: memoryJobIter_Next_def split: if_splits option.splits)

text \<open>
  Calling \<^verbatim>\<open>Next\<close> as many times as there are jobs not yet returned gives those jobs
  back in the order of the slice, provided none of the pointers is nil.
\<close>

lemma next_n_pending:
  "idx q + n = length (jobs q) \<Longrightarrow> None \<notin> set (drop (idx q) (jobs q)) \<Longrightarrow>
   fst (next_n n q h) = map (\<lambda>p. Returned (p, None)) (drop (idx q) (jobs q)) \<and>
   fst (snd (next_n n q h)) = q\<lparr>idx := length (jobs q)\<rparr>"
proof (induction n arbitrary: q h)
  case 0
  then show ?case by simp
next
  case (Suc n)
  from Suc.prems have lt: "idx q < length (jobs q)" by simp
  then have d: "drop (idx q) (jobs q) = jobs q ! idx q # drop (Suc (idx q)) (jobs q)"
    by (simp add: Cons_nth_drop_Suc)
  with Suc.prems obtain a where a: "jobs q ! idx q = Some a"
    by (cases "jobs q ! idx q") auto
  let ?q = "q\<lparr>idx := idx q + 1\<rparr>"
  let ?h = "h(a := (h a)\<lparr>tag := 1, acknowledger := Some mockAcknowledger\<rparr>)"
  have nx: "memoryJobIter_Next q h = (Returned (Some a, None), ?q, ?h)"
    using lt a by (simp add: memoryJobIter_Next_def)
  have "idx ?q + n = length (jobs ?q)" using Suc.prems by simp
  moreover have "None \<notin> set (drop (idx ?q) (jobs ?q))"
  proof -
    have "set (drop (Suc (idx q)) (jobs q)) \<subseteq> set (drop (idx q) (jobs q))"
      by (rule set_drop_subset_set_drop) simp
    with Suc.prems(2) show ?thesis by auto
  qed
  ultimately have ih:
    "fst (next_n n ?q ?h) = map (\<lambda>p. Returned (p, None)) (drop (idx ?q) (jobs ?q)) \<and>
     fst (snd (next_n n ?q ?h)) = ?q\<lparr>idx := length (jobs ?q)\<rparr>"
    by (rule Suc.IH)
  obtain rs q2 h2 where r: "next_n n ?q ?h = (rs, q2, h2)"
    by (cases "next_n n ?q ?h") auto
  from ih r have "rs = map (\<lambda>p. Returned (p, None)) (drop (Suc (idx q)) (jobs q))"
    and "q2 = q\<lparr>idx := length (jobs q)\<rparr>" by simp_all
  then show ?case using nx r d a by simp
qed

text \<open>
  A script run on a queue with \<^verbatim>\<open>publishImmediately\<close> appends exactly the jobs it
  publishes, delayed or not, and starts no goroutine.
\<close>

lemma run_ops_immediate:
  "publishImmediately t \<Longrightarrow> fst (run_ops ops t h) = Returned () \<Longrightarrow>
   jobs (fst (snd (run_ops ops t h))) = jobs t @ published ops \<and>
   snd (snd (snd (run_ops ops t h))) = []"
proof (induction ops arbitrary: t h)
  case Nil
  then show ?case by simp
next
  case (Cons op ops)
  show ?case
  proof (cases op)
    case (OpPublish p)
    with Cons.prems Cons.IH [of "snd (memoryQueue_Publish t p)" h] show ?thesis
      by (simp add: memoryQueue_Publish_def)
  next
    case (OpPublishDelayed p d)
    with Cons.prems Cons.IH [of "snd (memoryQueue_Publish t p)" h] show ?thesis
      by (simp add: memoryQueue_PublishDelayed_def memoryQueue_Publish_def)
  next
    case OpNext
    obtain out q' h' where nx: "memoryJobIter_Next t h = (out, q', h')"
      by (cases "memoryJobIter_Next t h") auto
    show ?thesis
    proof (cases out)
      case (Returned r)
      from memoryJobIter_Next_keeps [OF nx] Cons.prems(1)
      have k: "jobs q' = jobs t" "publishImmediately q'" by simp_all
      from Cons.prems(2) OpNext nx Returned
      have "fst (run_ops ops q' h') = Returned ()" by simp
      from Cons.IH [OF k(2) this] k(1) OpNext nx Returned show ?thesis by simp
    next
      case Panicked
      with Cons.prems(2) OpNext nx show ?thesis by simp
    next
      case Blocked
      with Cons.prems(2) OpNext nx show ?thesis by simp
    qed
  qed
qed

text \<open>
  \<^verbatim>\<open>Transaction\<close> with any callback that returns: the result is nil, and the queue
  receives the scratch queue's jobs exactly when the callback returned nil.
\<close>

lemma memoryQueue_Transaction_result:
  "txcb \<lparr>jobs = [], idx = 0, publishImmediately = True\<rparr> h = (Returned r, t, h') \<Longrightarrow>
   memoryQueue_Transaction q txcb h =
     (Returned None, (if r = None then q\<lparr>jobs := jobs q @ jobs t\<rparr> else q), h')"
  by (cases r) (simp_all add: memoryQueue_Transaction_def)

text \<open>
  Claim C3. In the in-memory backend, \<^verbatim>\<open>Transaction\<close> runs the callback against a
  scratch queue. Whatever the callback does with that queue (publishing, publishing
  with a delay, consuming), as long as it comes back: when it returns an error, the
  queue is unchanged and \<^verbatim>\<open>Transaction\<close> returns nil, not the callback's error; when
  it returns nil, the jobs it published are appended to the queue, in order, and
  \<^verbatim>\<open>Transaction\<close> returns nil.
\<close>

theorem memoryQueue_Transaction_commit_or_drop:
  "fst (run_ops ops \<lparr>jobs = [], idx = 0, publishImmediately = True\<rparr> h) = Returned () \<Longrightarrow>
   fst (memoryQueue_Transaction q (script ops r) h) = Returned None \<and>
   fst (snd (memoryQueue_Transaction q (script ops r) h)) =
     (if r = None then q\<lparr>jobs := jobs q @ published ops\<rparr> else q)"
proof -
  let ?t = "\<lparr>jobs = [], idx = 0, publishImmediately = True\<rparr>"
  assume ret: "fst (run_ops ops ?t h) = Returned ()"
  obtain out t' h' ts where run: "run_ops ops ?t h = (out, t', h', ts)"
    by (cases "run_ops ops ?t h") auto
  with ret have out: "out = Returned ()" by simp
  from run_ops_immediate [of ?t ops h] ret run have j: "jobs t' = published ops" by simp
  from run out have "script ops r ?t h = (Returned r, t', h')"
    by (simp add: script_def)
  then have "memoryQueue_Transaction q (script ops r) h =
     (Returned None, (if r = None then q\<lparr>jobs := jobs q @ jobs t'\<rparr> else q), h')"
    by (rule memoryQueue_Transaction_result)
  with j show ?thesis by simp
qed

text \<open>
  The theorem at work: a queue that holds job 0, already returned; a callback that
  publishes job 1, calls \<^verbatim>\<open>Next\<close>, publishes job 0 with a delay and returns an
  error: the queue still holds job 0 only.
\<close>

theorem memoryQueue_Transaction_commit_or_drop_witness:
  "fst (run_ops [OpPublish (Some 1), OpNext, OpPublishDelayed (Some 0) 5]
          \<lparr>jobs = [], idx = 0, publishImmediately = True\<rparr> example_heap) = Returned () \<and>
   fst (memoryQueue_Transaction \<lparr>jobs = [Some 0], idx = 1, publishImmediately = False\<rparr>
          (script [OpPublish (Some 1), OpNext, OpPublishDelayed (Some 0) 5]
             (Some (OtherError ''boom''))) example_heap) = Returned None \<and>
   fst (snd (memoryQueue_Transaction \<lparr>jobs = [Some 0], idx = 1, publishImmediately = False\<rparr>
          (script [OpPublish (Some 1), OpNext, OpPublishDelayed (Some 0) 5]
             (Some (OtherError ''boom''))) example_heap))
     = \<lparr>jobs = [Some 0], idx = 1, publishImmediately = False\<rparr>"
proof -
  have ret: "fst (run_ops [OpPublish (Some 1), OpNext, OpPublishDelayed (Some 0) 5]
          \<lparr>jobs = [], idx = 0, publishImmediately = True\<rparr> example_heap) = Returned ()"
    by (simp add: memoryQueue_Publish_def memoryQueue_PublishDelayed_def memoryJobIter_Next_def)
  from memoryQueue_Transaction_commit_or_drop
         [OF ret, of "\<lparr>jobs = [Some 0], idx = 1, publishImmediately = False\<rparr>"
           "Some (OtherError ''boom'')"]
       ret
  show ?thesis by simp
qed

text \<open>
  Claim C7. In the in-memory backend, once everything published before has been
  returned, publishing any sequence of jobs (non-nil pointers) and calling \<^verbatim>\<open>Next\<close>
  once per job returns the jobs in the order they were published, each once, whatever
  the heap holds for them (so whatever their priorities); the call after the last one
  returns \<^verbatim>\<open>nil, nil\<close>.
\<close>

theorem memoryJobIter_Next_fifo:
  "idx q = length (jobs q) \<Longrightarrow> None \<notin> set ps \<Longrightarrow>
   fst (next_n (length ps) (publish_all q ps) h) = map (\<lambda>p. Returned (p, None)) ps \<and>
   fst (memoryJobIter_Next (fst (snd (next_n (length ps) (publish_all q ps) h)))
                           (snd (snd (next_n (length ps) (publish_all q ps) h))))
     = Returned (None, None)"
  using next_n_pending [of "publish_all q ps" "length ps" h]
  by (simp add: publish_all_jobs publish_all_idx memoryJobIter_Next_def)

text \<open>
  The scenario of the spec: \<^verbatim>\<open>A\<close> (priority 5) then \<^verbatim>\<open>B\<close> (priority 1) published
  to a new queue come back as \<^verbatim>\<open>A\<close>, \<^verbatim>\<open>B\<close>.
\<close>

theorem memoryJobIter_Next_fifo_witness:
  "idx new_queue = length (jobs new_queue) \<and> None \<notin> set [Some 0, Some (1::nat)] \<and>
   Priority (example_heap 0) = 5 \<and> Priority (example_heap 1) = 1 \<and>
   fst (next_n (length [Some 0, Some (1::nat)]) (publish_all new_queue [Some 0, Some 1])
          example_heap)
     = [Returned (Some 0, None), Returned (Some 1, None)]"
proof -
  have h1: "idx new_queue = length (jobs new_queue)"
    by (simp add: new_queue_def memoryBroker_Queue_def)
  have h2: "None \<notin> set [Some 0, Some (1::nat)]" by simp
  from memoryJobIter_Next_fifo [OF h1 h2, of example_heap] h1 h2
  show ?thesis by (simp add: example_heap_def example_job_def)
qed

text \<open>
  Claim C10. In the in-memory backend, when every job published so far has been
  returned (\<^verbatim>\<open>len(jobs) <= idx\<close>), \<^verbatim>\<open>Next\<close> returns a nil job and a nil error at
  once: it does not block, it does not return \<^verbatim>\<open>ErrAlreadyClosed\<close>, and it changes
  neither the queue nor the heap.
\<close>

theorem memoryJobIter_Next_exhausted:
  "length (jobs i) \<le> idx i \<Longrightarrow> memoryJobIter_Next i h = (Returned (None, None), i, h)"
  by (simp add: memoryJobIter_Next_def)

theorem memoryJobIter_Next_exhausted_witness:
  "length (jobs \<lparr>jobs = [Some 0], idx = 1, publishImmediately = False\<rparr>)
     \<le> idx \<lparr>jobs = [Some 0], idx = 1, publishImmediately = False\<rparr> \<and>
   memoryJobIter_Next \<lparr>jobs = [Some 0], idx = 1, publishImmediately = False\<rparr> example_heap
     = (Returned (None, None), \<lparr>jobs = [Some 0], idx = 1, publishImmediately = False\<rparr>,
        example_heap)"
proof -
  have h: "length (jobs \<lparr>jobs = [Some 0], idx = 1, publishImmediately = False\<rparr>)
     \<le> idx \<lparr>jobs = [Some 0], idx = 1, publishImmediately = False\<rparr>" by simp
  from memoryJobIter_Next_exhausted [OF h, of example_heap] h show ?thesis by simp
qed

text \<open>
  Claim C1, on the in-memory backend. The job at address 2 has an empty payload.
  \<^verbatim>\<open>Publish\<close> on a new queue returns nil and appends it; \<^verbatim>\<open>PublishDelayed\<close> returns
  nil and starts the goroutine that will publish it (and with \<^verbatim>\<open>publishImmediately\<close>
  appends it at once); \<^verbatim>\<open>Next\<close> then hands the job to the consumer. The same holds
  for a nil job, which \<^verbatim>\<open>Publish\<close> appends as well. Neither method ever returns
  \<^verbatim>\<open>ErrEmptyJob\<close>.
\<close>

theorem memoryQueue_Publish_accepts_empty_job:
  "raw (example_heap 2) = [] \<and>
   memoryQueue_Publish new_queue (Some 2)
     = (None, \<lparr>jobs = [Some 2], idx = 0, publishImmediately = False\<rparr>) \<and>
   memoryQueue_PublishDelayed new_queue (Some 2) 5 = (None, new_queue, Some (5, Some 2)) \<and>
   memoryQueue_PublishDelayed (new_queue\<lparr>publishImmediately := True\<rparr>) (Some 2) 5
     = (None, \<lparr>jobs = [Some 2], idx = 0, publishImmediately = True\<rparr>, None) \<and>
   fst (memoryJobIter_Next (snd (memoryQueue_Publish new_queue (Some 2))) example_heap)
     = Returned (Some 2, None) \<and>
   memoryQueue_Publish new_queue None
     = (None, \<lparr>jobs = [None], idx = 0, publishImmediately = False\<rparr>)"
  by (simp add: example_heap_def example_job_def new_queue_def memoryBroker_Queue_def
      memoryQueue_Publish_def memoryQueue_PublishDelayed_def memoryJobIter_Next_def)

text \<open>
  On the AMQP backend the claim holds: a nil job or an empty payload is answered with
  \<^verbatim>\<open>ErrEmptyJob\<close> and no call reaches the transport, whatever the other fields, the
  delay, the queue and the transport are.
\<close>

lemma AMQPQueue_Publish_empty_job:
  "jp = None \<or> raw (the jp) = [] \<Longrightarrow>
   AMQPQueue_Publish T q jp = (Some ErrEmptyJob, []) \<and>
   AMQPQueue_PublishDelayed T q jp delay = (Some ErrEmptyJob, [])"
  by (cases jp) (auto simp: AMQPQueue_Publish_def AMQPQueue_PublishDelayed_def)

section \<open>The AMQP backend: what it does\<close>

text \<open>
  Claim C4. In the AMQP backend's \<^verbatim>\<open>Transaction\<close>, once the dedicated channel is
  open and in transaction mode: when the callback returns an error, the transaction is
  rolled back (and not committed), and the method returns the rollback's error if the
  rollback failed and the callback's error otherwise; when the callback returns nil,
  the transaction is committed (and not rolled back) and the method returns what the
  commit returned. In both cases the channel is closed last.
\<close>

theorem AMQPQueue_Transaction_rollback_or_commit:
  assumes "t_Channel T (connection (q_conn q)) = Inr c"
    and "t_Tx T c = None"
    and "txcb \<lparr>q_conn = \<lparr>conn = connection (q_conn q), ch = c, stop = None\<rparr>,
               queue = queue q\<rparr> = (r, calls)"
  shows "(\<forall>e. r = Some e \<longrightarrow>
            AMQPQueue_Transaction T q txcb =
              ((case t_TxRollback T c of Some e' \<Rightarrow> Some e' | None \<Rightarrow> Some e),
               [Conn_Channel (connection (q_conn q)), Ch_Tx c] @ calls @
               [Ch_TxRollback c, Ch_Close c])) \<and>
         (r = None \<longrightarrow>
            AMQPQueue_Transaction T q txcb =
              (t_TxCommit T c,
               [Conn_Channel (connection (q_conn q)), Ch_Tx c] @ calls @
               [Ch_TxCommit c, Ch_Close c]))"
  using assms by (auto simp: AMQPQueue_Transaction_def Let_def split: option.splits)

text \<open>
  A callback that fails, once on a transport whose rollback fails too and once on a
  transport whose rollback succeeds.
\<close>

theorem AMQPQueue_Transaction_rollback_or_commit_witness:
  "t_Channel (example_transport\<lparr>t_TxRollback := (\<lambda>c. Some (OtherError ''rollback''))\<rparr>)
     (connection (q_conn example_queue)) = Inr 7 \<and>
   t_Tx (example_transport\<lparr>t_TxRollback := (\<lambda>c. Some (OtherError ''rollback''))\<rparr>) 7 = None \<and>
   AMQPQueue_Transaction
     (example_transport\<lparr>t_TxRollback := (\<lambda>c. Some (OtherError ''rollback''))\<rparr>)
     example_queue (\<lambda>txq. (Some (OtherError ''callback''), []))
     = (Some (OtherError ''rollback''),
        [Conn_Channel 1, Ch_Tx 7, Ch_TxRollback 7, Ch_Close 7]) \<and>
   AMQPQueue_Transaction example_transport example_queue
     (\<lambda>txq. (Some (OtherError ''callback''), []))
     = (Some (OtherError ''callback''),
        [Conn_Channel 1, Ch_Tx 7, Ch_TxRollback 7, Ch_Close 7])"
proof -
  let ?T = "example_transport\<lparr>t_TxRollback := (\<lambda>c. Some (OtherError ''rollback''))\<rparr>"
  let ?cb = "\<lambda>txq::AMQPQueue. (Some (OtherError ''callback''), [] :: call list)"
  have k: "connection (q_conn example_queue) = 1"
    by (simp add: example_queue_def example_broker_def connection_def)
  have h1: "t_Channel ?T (connection (q_conn example_queue)) = Inr 7"
    by (simp add: example_transport_def)
  have h2: "t_Tx ?T 7 = None" by (simp add: example_transport_def)
  have h3: "?cb \<lparr>q_conn = \<lparr>conn = connection (q_conn example_queue), ch = 7, stop = None\<rparr>,
               queue = queue example_queue\<rparr> = (Some (OtherError ''callback''), [])" by simp
  have g1: "t_Channel example_transport (connection (q_conn example_queue)) = Inr 7"
    by (simp add: example_transport_def)
  have g2: "t_Tx example_transport 7 = None" by (simp add: example_transport_def)
  have r1: "t_TxRollback ?T 7 = Some (OtherError ''rollback'')" by simp
  have r2: "t_TxRollback example_transport 7 = None" by (simp add: example_transport_def)
  from AMQPQueue_Transaction_rollback_or_commit [OF h1 h2 h3]
       AMQPQueue_Transaction_rollback_or_commit [OF g1 g2 h3] h1 h2 k r1 r2
  show ?thesis by simp
qed

text \<open>
  Claim C6. \<^verbatim>\<open>Next\<close> on the AMQP iterator: when a delivery is waiting on the delivery
  channel it returns the job made from it, with the acknowledger and the delivery tag
  set from the delivery, and a nil error; when the channel has been closed and
  nothing is left on it, it returns at once, with a nil job and \<^verbatim>\<open>ErrAlreadyClosed\<close>
  (it does not block, and it does not answer \<^verbatim>\<open>nil, nil\<close> or an empty job without
  an error); it blocks only on an open channel with nothing to receive.
\<close>

theorem AMQPJobIter_Next_delivers_or_closed:
  "(buf (it_c i) = d # ds \<longrightarrow>
      AMQPJobIter_Next j0 i =
        (Returned (Some (fromDelivery j0 d), None), i\<lparr>it_c := (it_c i)\<lparr>buf := ds\<rparr>\<rparr>) \<and>
      acknowledger (fromDelivery j0 d) =
        Some (AMQPAcknowledger (dlv_Acknowledger d) (dlv_DeliveryTag d)) \<and>
      tag (fromDelivery j0 d) = dlv_DeliveryTag d) \<and>
   (buf (it_c i) = [] \<and> closed (it_c i) \<longrightarrow>
      AMQPJobIter_Next j0 i = (Returned (None, Some ErrAlreadyClosed), i)) \<and>
   (buf (it_c i) = [] \<and> \<not> closed (it_c i) \<longrightarrow> fst (AMQPJobIter_Next j0 i) = Blocked)"
  by (simp add: AMQPJobIter_Next_def recv_def fromDelivery_def)

theorem AMQPJobIter_Next_delivers_or_closed_witness:
  "AMQPJobIter_Next (example_job ''N'' 4 [])
     \<lparr>it_id = ''c-1'', it_ch = 7, it_c = \<lparr>buf = [example_delivery], closed = True\<rparr>\<rparr>
     = (Returned (Some (example_job ''A'' 5 [1]
                         \<lparr>acknowledger := Some (AMQPAcknowledger 7 42), tag := 42\<rparr>), None),
        \<lparr>it_id = ''c-1'', it_ch = 7, it_c = \<lparr>buf = [], closed = True\<rparr>\<rparr>) \<and>
   AMQPJobIter_Next (example_job ''N'' 4 [])
     \<lparr>it_id = ''c-1'', it_ch = 7, it_c = \<lparr>buf = [], closed = True\<rparr>\<rparr>
     = (Returned (None, Some ErrAlreadyClosed),
        \<lparr>it_id = ''c-1'', it_ch = 7, it_c = \<lparr>buf = [], closed = True\<rparr>\<rparr>)"
  using AMQPJobIter_Next_delivers_or_closed
          [of "\<lparr>it_id = ''c-1'', it_ch = 7, it_c = \<lparr>buf = [example_delivery], closed = True\<rparr>\<rparr>"
              example_delivery "[]" "example_job ''N'' 4 []"]
        AMQPJobIter_Next_delivers_or_closed
          [of "\<lparr>it_id = ''c-1'', it_ch = 7, it_c = \<lparr>buf = [], closed = True\<rparr>\<rparr>"
              example_delivery "[]" "example_job ''N'' 4 []"]
  by (simp add: fromDelivery_def example_job_def example_delivery_def)

text \<open>
  The arithmetic of \<^verbatim>\<open>PublishDelayed\<close>. A delay is a 64-bit count of nanoseconds;
  divided by a million it is far from the ends of the 64-bit range, so converting the
  quotient back to \<^verbatim>\<open>int64\<close> loses nothing and doubling it cannot wrap around.
\<close>

lemma sint_word_of_int_64:
  "- (2 ^ 63) \<le> k \<Longrightarrow> k < 2 ^ 63 \<Longrightarrow> sint (word_of_int k :: int64) = k"
  by (simp add: signed_of_int signed_take_bit_int_eq_self)

lemma sdiv_ms_bounds:
  "- (2 ^ 63) \<le> (k::int) \<Longrightarrow> k < 2 ^ 63 \<Longrightarrow>
   - (2 ^ 62) \<le> k sdiv 1000000 \<and> k sdiv 1000000 < 2 ^ 62"
proof -
  assume a: "- (2 ^ 63) \<le> k" "k < 2 ^ 63"
  have c: "0 \<le> \<bar>k\<bar> div 1000000" by simp
  have "\<bar>k\<bar> div 1000000 < 2 ^ 62"
  proof -
    have "\<bar>k\<bar> \<le> 2 ^ 63" using a by simp
    then have "\<bar>k\<bar> div 1000000 \<le> 2 ^ 63 div 1000000" by (rule zdiv_mono1) simp
    also have "\<dots> < (2 ^ 62 :: int)" by simp
    finally show ?thesis .
  qed
  then show ?thesis using c
    by (cases "k < 0"; cases "k = 0") (simp_all add: signed_divide_int_def)
qed

lemma ttl_exact:
  fixes delay :: int64
  shows "sint (word_of_int (sint delay sdiv 1000000) :: int64) = sint delay sdiv 1000000 \<and>
         sint (word_of_int (2 * (sint delay sdiv 1000000)) :: int64)
           = 2 * (sint delay sdiv 1000000)"
proof -
  have r: "- (2 ^ 63) \<le> sint delay" "sint delay < 2 ^ 63"
    using sint_ge [of delay] sint_lt [of delay] by simp_all
  from sdiv_ms_bounds [OF r]
  have b: "- (2 ^ 62) \<le> sint delay sdiv 1000000" "sint delay sdiv 1000000 < 2 ^ 62" by simp_all
  have "sint (word_of_int (sint delay sdiv 1000000) :: int64) = sint delay sdiv 1000000"
    using b by (intro sint_word_of_int_64) simp_all
  moreover have "sint (word_of_int (2 * (sint delay sdiv 1000000)) :: int64)
           = 2 * (sint delay sdiv 1000000)"
    using b by (intro sint_word_of_int_64) simp_all
  ultimately show ?thesis by simp
qed

lemma PublishDelayed_declare:
  "raw j \<noteq> [] \<Longrightarrow>
   hd (snd (AMQPQueue_PublishDelayed T q (Some j) delay)) =
     Ch_QueueDeclare (channel (q_conn q)) (ID j) True True False False
       (Some [(''x-dead-letter-exchange'', TString []),
              (''x-dead-letter-routing-key'', TString (Name (queue q))),
              (''x-message-ttl'', TInt64 (word_of_int (sint delay sdiv 1000000))),
              (''x-expires'', TInt64 (word_of_int (2 * (sint delay sdiv 1000000))))])"
  by (simp add: AMQPQueue_PublishDelayed_def Let_def Millisecond_def split: sum.splits)

text \<open>
  Claim C5. For a job with a non-empty payload and any delay, \<^verbatim>\<open>PublishDelayed\<close> on
  the AMQP backend first declares a queue named \<^verbatim>\<open>job.ID\<close>, durable and deleted when
  unused, whose arguments are: dead-letter exchange \<^verbatim>\<open>""\<close>, dead-letter routing key
  the destination queue's name, message TTL the delay in milliseconds (the nanoseconds
  divided by a million, truncated towards zero), and expiry exactly twice the TTL (no
  wrap-around). When the declaration succeeds, the job is then published to the
  declared queue with the very message an immediate \<^verbatim>\<open>Publish\<close> to that queue sends,
  and the result is the transport's answer to that publish; when the declaration
  fails, its error is returned and nothing is published.
\<close>

theorem AMQPQueue_PublishDelayed_transient_queue:
  assumes "raw j \<noteq> []"
  shows "hd (snd (AMQPQueue_PublishDelayed T q (Some j) delay)) =
           Ch_QueueDeclare (channel (q_conn q)) (ID j) True True False False
             (Some [(''x-dead-letter-exchange'', TString []),
                    (''x-dead-letter-routing-key'', TString (Name (queue q))),
                    (''x-message-ttl'', TInt64 (word_of_int (sint delay sdiv 1000000))),
                    (''x-expires'', TInt64 (word_of_int (2 * (sint delay sdiv 1000000))))]) \<and>
         sint (word_of_int (sint delay sdiv 1000000) :: int64) = sint delay sdiv 1000000 \<and>
         sint (word_of_int (2 * (sint delay sdiv 1000000)) :: int64)
           = 2 * (sint delay sdiv 1000000) \<and>
         (\<forall>dq. t_QueueDeclare T (channel (q_conn q)) (ID j) = Inr dq \<longrightarrow>
            fst (AMQPQueue_PublishDelayed T q (Some j) delay) = t_Publish T (channel (q_conn q)) \<and>
            tl (snd (AMQPQueue_PublishDelayed T q (Some j) delay)) =
              snd (AMQPQueue_Publish T (q\<lparr>queue := dq\<rparr>) (Some j))) \<and>
         (\<forall>e. t_QueueDeclare T (channel (q_conn q)) (ID j) = Inl e \<longrightarrow>
            AMQPQueue_PublishDelayed T q (Some j) delay =
              (Some e, [hd (snd (AMQPQueue_PublishDelayed T q (Some j) delay))]))"
proof -
  have "\<forall>dq. t_QueueDeclare T (channel (q_conn q)) (ID j) = Inr dq \<longrightarrow>
            fst (AMQPQueue_PublishDelayed T q (Some j) delay) = t_Publish T (channel (q_conn q)) \<and>
            tl (snd (AMQPQueue_PublishDelayed T q (Some j) delay)) =
              snd (AMQPQueue_Publish T (q\<lparr>queue := dq\<rparr>) (Some j))"
    using assms by (simp add: AMQPQueue_PublishDelayed_def AMQPQueue_Publish_def Let_def)
  moreover have "\<forall>e. t_QueueDeclare T (channel (q_conn q)) (ID j) = Inl e \<longrightarrow>
            AMQPQueue_PublishDelayed T q (Some j) delay =
              (Some e, [hd (snd (AMQPQueue_PublishDelayed T q (Some j) delay))])"
    using assms by (simp add: AMQPQueue_PublishDelayed_def Let_def)
  ultimately show ?thesis
    using PublishDelayed_declare [OF assms, of T q delay] ttl_exact [of delay] by blast
qed

text \<open>Job \<^verbatim>\<open>A\<close> delayed by 1.5 seconds: a TTL of 1500 ms and an expiry of 3000 ms.\<close>

theorem AMQPQueue_PublishDelayed_transient_queue_witness:
  "raw (example_job ''A'' 5 [1]) \<noteq> [] \<and>
   AMQPQueue_PublishDelayed example_transport example_queue (Some (example_job ''A'' 5 [1]))
     1500000000
   = (None,
      [Ch_QueueDeclare 2 ''A'' True True False False
         (Some [(''x-dead-letter-exchange'', TString []),
                (''x-dead-letter-routing-key'', TString ''jobs''),
                (''x-message-ttl'', TInt64 1500),
                (''x-expires'', TInt64 3000)]),
       Ch_Publish 2 [] ''A'' False False
         \<lparr>pub_DeliveryMode = 2, pub_MessageId = ''A'', pub_Priority = 5,
          pub_Timestamp = 1500000000, pub_ContentType = ''application/msgpack'',
          pub_Body = [1]\<rparr>])"
proof -
  have h: "raw (example_job ''A'' 5 [1]) \<noteq> []" by (simp add: example_job_def)
  have d: "t_QueueDeclare example_transport (channel (q_conn example_queue))
             (ID (example_job ''A'' 5 [1])) = Inr \<lparr>Name = ''A'', Messages = 0, Consumers = 0\<rparr>"
    by (simp add: example_transport_def example_job_def)
  have s: "sint (1500000000 :: int64) sdiv 1000000 = 1500"
    by (simp add: signed_divide_int_def)
  obtain r cs where rc: "AMQPQueue_PublishDelayed example_transport example_queue
       (Some (example_job ''A'' 5 [1])) 1500000000 = (r, cs)"
    by (cases "AMQPQueue_PublishDelayed example_transport example_queue
       (Some (example_job ''A'' 5 [1])) 1500000000") auto
  have ne: "cs \<noteq> []"
    using rc d h by (auto simp: AMQPQueue_PublishDelayed_def Let_def)
  from AMQPQueue_PublishDelayed_transient_queue
         [OF h, of example_transport example_queue 1500000000] d s rc
  have "hd cs = Ch_QueueDeclare 2 ''A'' True True False False
         (Some [(''x-dead-letter-exchange'', TString []),
                (''x-dead-letter-routing-key'', TString ''jobs''),
                (''x-message-ttl'', TInt64 1500),
                (''x-expires'', TInt64 3000)])"
    and "r = None"
    and "tl cs = [Ch_Publish 2 [] ''A'' False False
         \<lparr>pub_DeliveryMode = 2, pub_MessageId = ''A'', pub_Priority = 5,
          pub_Timestamp = 1500000000, pub_ContentType = ''application/msgpack'',
          pub_Body = [1]\<rparr>]"
    by (simp_all add: example_transport_def example_queue_def example_broker_def
        example_job_def channel_def AMQPQueue_Publish_def Persistent_def)
  with ne rc h show ?thesis by (cases cs) simp_all
qed








subsection \<open>Reconnecting\<close>

text \<open>
  Each loop of \<^verbatim>\<open>connect\<close> returns exactly when some attempt succeeds, and then at the
  first attempt that does, having failed (and waited one second) once for every
  attempt before it.
\<close>

lemma dial_loop_first_success:
  "(\<forall>i. n \<le> i \<and> i < m \<longrightarrow> isl (dial i)) \<Longrightarrow> dial m = Inr c \<Longrightarrow> n \<le> m \<Longrightarrow>
   dial_loop dial n = Some (c, m)"
proof (induction "m - n" arbitrary: n)
  case 0
  then have "n = m" by simp
  with 0 show ?case by (subst dial_loop.simps) simp
next
  case (Suc k)
  then have lt: "n < m" by simp
  with Suc.prems(1) have "isl (dial n)" by simp
  then obtain e where e: "dial n = Inl e" by (cases "dial n") auto
  have "dial_loop dial (Suc n) = Some (c, m)"
    using Suc.hyps Suc.prems lt by (intro Suc.hyps(1)) auto
  with e show ?case by (subst dial_loop.simps) simp
qed

lemma dial_loop_returns:
  assumes "dial_loop dial n = Some y"
  shows "n \<le> snd y \<and> (\<forall>i. n \<le> i \<and> i < snd y \<longrightarrow> isl (dial i)) \<and> dial (snd y) = Inr (fst y)"
proof (rule dial_loop.raw_induct
    [where P = "\<lambda>dial n y. n \<le> snd y \<and> (\<forall>i. n \<le> i \<and> i < snd y \<longrightarrow> isl (dial i)) \<and>
                  dial (snd y) = Inr (fst y)", OF _ assms])
  fix loop :: "(nat \<Rightarrow> error + conn_id) \<Rightarrow> nat \<Rightarrow> (conn_id \<times> nat) option"
    and dial n y
  assume ih: "\<And>d k z. loop d k = Some z \<Longrightarrow>
      k \<le> snd z \<and> (\<forall>i. k \<le> i \<and> i < snd z \<longrightarrow> isl (d i)) \<and> d (snd z) = Inr (fst z)"
    and step: "(case dial n of Inl err \<Rightarrow> loop dial (Suc n) | Inr c \<Rightarrow> Some (c, n)) = Some y"
  show "n \<le> snd y \<and> (\<forall>i. n \<le> i \<and> i < snd y \<longrightarrow> isl (dial i)) \<and> dial (snd y) = Inr (fst y)"
  proof (cases "dial n")
    case (Inl e)
    with step have "loop dial (Suc n) = Some y" by simp
    from ih [OF this] have a: "Suc n \<le> snd y"
      and b: "\<forall>i. Suc n \<le> i \<and> i < snd y \<longrightarrow> isl (dial i)"
      and c: "dial (snd y) = Inr (fst y)" by simp_all
    have "\<forall>i. n \<le> i \<and> i < snd y \<longrightarrow> isl (dial i)"
    proof (intro allI impI)
      fix i assume i: "n \<le> i \<and> i < snd y"
      show "isl (dial i)"
      proof (cases "i = n")
        case True
        with Inl show ?thesis by simp
      next
        case False
        with i have "Suc n \<le> i \<and> i < snd y" by simp
        with b show ?thesis by blast
      qed
    qed
    with a c show ?thesis by simp
  next
    case (Inr c)
    with step show ?thesis by auto
  qed
qed

lemma dial_loop_iff:
  "dial_loop dial 0 = Some (c, m) \<longleftrightarrow> (\<forall>i<m. isl (dial i)) \<and> dial m = Inr c"
  using dial_loop_returns [of dial 0 "(c, m)"] dial_loop_first_success [of 0 m dial c]
  by auto

lemma channel_loop_first_success:
  "(\<forall>i. n \<le> i \<and> i < m \<longrightarrow> isl (chanopen i)) \<Longrightarrow> chanopen m = Inr c \<Longrightarrow> n \<le> m \<Longrightarrow>
   channel_loop chanopen n = Some (c, m)"
proof (induction "m - n" arbitrary: n)
  case 0
  then have "n = m" by simp
  with 0 show ?case by (subst channel_loop.simps) simp
next
  case (Suc k)
  then have lt: "n < m" by simp
  with Suc.prems(1) have "isl (chanopen n)" by simp
  then obtain e where e: "chanopen n = Inl e" by (cases "chanopen n") auto
  have "channel_loop chanopen (Suc n) = Some (c, m)"
    using Suc.hyps Suc.prems lt by (intro Suc.hyps(1)) auto
  with e show ?case by (subst channel_loop.simps) simp
qed

lemma channel_loop_returns:
  assumes "channel_loop chanopen n = Some y"
  shows "n \<le> snd y \<and> (\<forall>i. n \<le> i \<and> i < snd y \<longrightarrow> isl (chanopen i)) \<and> chanopen (snd y) = Inr (fst y)"
proof (rule channel_loop.raw_induct
    [where P = "\<lambda>chanopen n y. n \<le> snd y \<and> (\<forall>i. n \<le> i \<and> i < snd y \<longrightarrow> isl (chanopen i)) \<and>
                  chanopen (snd y) = Inr (fst y)", OF _ assms])
  fix loop :: "(nat \<Rightarrow> error + chan_id) \<Rightarrow> nat \<Rightarrow> (chan_id \<times> nat) option"
    and chanopen n y
  assume ih: "\<And>d k z. loop d k = Some z \<Longrightarrow>
      k \<le> snd z \<and> (\<forall>i. k \<le> i \<and> i < snd z \<longrightarrow> isl (d i)) \<and> d (snd z) = Inr (fst z)"
    and step: "(case chanopen n of Inl err \<Rightarrow> loop chanopen (Suc n) | Inr c \<Rightarrow> Some (c, n)) = Some y"
  show "n \<le> snd y \<and> (\<forall>i. n \<le> i \<and> i < snd y \<longrightarrow> isl (chanopen i)) \<and> chanopen (snd y) = Inr (fst y)"
  proof (cases "chanopen n")
    case (Inl e)
    with step have "loop chanopen (Suc n) = Some y" by simp
    from ih [OF this] have a: "Suc n \<le> snd y"
      and b: "\<forall>i. Suc n \<le> i \<and> i < snd y \<longrightarrow> isl (chanopen i)"
      and c: "chanopen (snd y) = Inr (fst y)" by simp_all
    have "\<forall>i. n \<le> i \<and> i < snd y \<longrightarrow> isl (chanopen i)"
    proof (intro allI impI)
      fix i assume i: "n \<le> i \<and> i < snd y"
      show "isl (chanopen i)"
      proof (cases "i = n")
        case True
        with Inl show ?thesis by simp
      next
        case False
        with i have "Suc n \<le> i \<and> i < snd y" by simp
        with b show ?thesis by blast
      qed
    qed
    with a c show ?thesis by simp
  next
    case (Inr c)
    with step show ?thesis by auto
  qed
qed

lemma channel_loop_iff:
  "channel_loop chanopen 0 = Some (c, m) \<longleftrightarrow> (\<forall>i<m. isl (chanopen i)) \<and> chanopen m = Inr c"
  using channel_loop_returns [of chanopen 0 "(c, m)"] channel_loop_first_success [of 0 m chanopen c]
  by auto


lemma connect_Some_iff:
  "connect dial chanopen url = Some (c, k, w) \<longleftrightarrow>
     (\<exists>n m. (\<forall>i<n. isl (dial url i)) \<and> dial url n = Inr c \<and>
            (\<forall>i<m. isl (chanopen c i)) \<and> chanopen c m = Inr k \<and> w = n + m)"
proof
  assume "connect dial chanopen url = Some (c, k, w)"
  then obtain n m where "dial_loop (dial url) 0 = Some (c, n)"
    and "channel_loop (chanopen c) 0 = Some (k, m)" and "w = n + m"
    by (auto simp: connect_def split: option.splits)
  then show "\<exists>n m. (\<forall>i<n. isl (dial url i)) \<and> dial url n = Inr c \<and>
            (\<forall>i<m. isl (chanopen c i)) \<and> chanopen c m = Inr k \<and> w = n + m"
    by (auto simp: dial_loop_iff channel_loop_iff)
next
  assume "\<exists>n m. (\<forall>i<n. isl (dial url i)) \<and> dial url n = Inr c \<and>
            (\<forall>i<m. isl (chanopen c i)) \<and> chanopen c m = Inr k \<and> w = n + m"
  then obtain n m where "dial_loop (dial url) 0 = Some (c, n)"
    and "channel_loop (chanopen c) 0 = Some (k, m)" and "w = n + m"
    by (auto simp: dial_loop_iff channel_loop_iff)
  then show "connect dial chanopen url = Some (c, k, w)"
    by (simp add: connect_def)
qed

lemma first_success:
  "\<not> isl (f (m::nat)) \<Longrightarrow> \<exists>n x. (\<forall>i<n. isl (f i)) \<and> f n = Inr x"
proof -
  assume a: "\<not> isl (f m)"
  let ?n = "LEAST n. \<not> isl (f n)"
  have "\<not> isl (f ?n)" using a by (rule LeastI)
  then obtain x where "f ?n = Inr x" by (cases "f ?n") auto
  moreover have "\<forall>i<?n. isl (f i)" using not_less_Least by blast
  ultimately show ?thesis by blast
qed

lemma connect_returns_iff:
  "connect dial chanopen url \<noteq> None \<longleftrightarrow>
     (\<exists>n c. (\<forall>i<n. isl (dial url i)) \<and> dial url n = Inr c \<and> (\<exists>m. \<not> isl (chanopen c m)))"
proof
  assume "connect dial chanopen url \<noteq> None"
  then obtain c k w where "connect dial chanopen url = Some (c, k, w)" by auto
  then show "\<exists>n c. (\<forall>i<n. isl (dial url i)) \<and> dial url n = Inr c \<and> (\<exists>m. \<not> isl (chanopen c m))"
    unfolding connect_Some_iff by (metis sum.disc(2))
next
  assume "\<exists>n c. (\<forall>i<n. isl (dial url i)) \<and> dial url n = Inr c \<and> (\<exists>m. \<not> isl (chanopen c m))"
  then obtain n c m where d: "\<forall>i<n. isl (dial url i)" "dial url n = Inr c"
    and nm: "\<not> isl (chanopen c m)" by blast
  from first_success [of "chanopen c" m] nm obtain m' k where "\<forall>i<m'. isl (chanopen c i)"
    "chanopen c m' = Inr k" by blast
  with d have "connect dial chanopen url = Some (c, k, n + m')"
    unfolding connect_Some_iff by blast
  then show "connect dial chanopen url \<noteq> None" by simp
qed

text \<open>
  Claim C8. \<^verbatim>\<open>connect\<close> returns a connection \<open>c\<close>, a channel \<open>k\<close> and \<open>w\<close> seconds of
  waiting exactly when: some dial attempt \<open>n\<close> is the first to succeed and gives \<open>c\<close>;
  some attempt \<open>m\<close> to open a channel on \<open>c\<close> is the first to succeed and gives \<open>k\<close>;
  and \<open>w = n + m\<close>, one second for each failed attempt. There is no bound on \<open>n\<close> and
  \<open>m\<close>. So \<^verbatim>\<open>connect\<close> returns if and only if some dial attempt succeeds and some
  later attempt to open a channel on the connection dialled succeeds; it otherwise runs
  for ever, and what it returns is never an error.
\<close>

theorem connect_retries_until_both_succeed:
  "(connect dial chanopen url = Some (c, k, w) \<longleftrightarrow>
     (\<exists>n m. (\<forall>i<n. isl (dial url i)) \<and> dial url n = Inr c \<and>
            (\<forall>i<m. isl (chanopen c i)) \<and> chanopen c m = Inr k \<and> w = n + m)) \<and>
   (connect dial chanopen url \<noteq> None \<longleftrightarrow>
     (\<exists>n c. (\<forall>i<n. isl (dial url i)) \<and> dial url n = Inr c \<and> (\<exists>m. \<not> isl (chanopen c m))))"
  using connect_Some_iff [of dial chanopen url c k w] connect_returns_iff [of dial chanopen url]
  by blast

text \<open>
  Two failed dials, then a connection; one failed channel, then a channel: three
  seconds of waiting.
\<close>

theorem connect_retries_until_both_succeed_witness:
  "connect (\<lambda>url n. if n < 2 then Inl (OtherError ''dial'') else Inr 3)
           (\<lambda>c n. if n < 1 then Inl (OtherError ''channel'') else Inr (c + 1))
           ''amqp://localhost'' = Some (3, 4, 3)"
proof -
  let ?dial = "\<lambda>(url::string) n::nat. if n < 2 then Inl (OtherError ''dial'') else (Inr 3 :: error + conn_id)"
  let ?chan = "\<lambda>(c::conn_id) n::nat. if n < 1 then Inl (OtherError ''channel'') else (Inr (c + 1) :: error + chan_id)"
  have "(\<forall>i<2. isl (?dial ''amqp://localhost'' i)) \<and> ?dial ''amqp://localhost'' 2 = Inr 3 \<and>
        (\<forall>i<1. isl (?chan 3 i)) \<and> ?chan 3 1 = Inr 4 \<and> (3::nat) = 2 + 1"
    by simp
  then have "\<exists>n m. (\<forall>i<n. isl (?dial ''amqp://localhost'' i)) \<and> ?dial ''amqp://localhost'' n = Inr 3 \<and>
        (\<forall>i<m. isl (?chan 3 i)) \<and> ?chan 3 m = Inr 4 \<and> (3::nat) = n + m"
    by blast
  with connect_retries_until_both_succeed [of ?dial ?chan "''amqp://localhost''" 3 4 3]
  show ?thesis by blast
qed

end
